theory Spec2Isabelle
  imports Complex_Main
begin

section \<open>Python strings\<close>

text \<open>
  A Python \<open>str\<close> is a sequence of Unicode code points, so a string is a list of
  code-point numbers here (a \<open>char\<close> of HOL is one byte and cannot hold Cyrillic).
  \<open>u\<close> reads an ASCII literal as such a string.
\<close>

type_synonym ustr = "nat list"

definition u :: "string \<Rightarrow> ustr" where
  "u s = map of_char s"

text \<open>\<open>str.isspace\<close> of one code point: the characters \<open>strip()\<close> and \<open>split()\<close> remove.\<close>

definition py_isspace :: "nat \<Rightarrow> bool" where
  "py_isspace c \<longleftrightarrow>
     (9 \<le> c \<and> c \<le> 13) \<or> (28 \<le> c \<and> c \<le> 32) \<or> c = 133 \<or> c = 160 \<or> c = 5760 \<or>
     (8192 \<le> c \<and> c \<le> 8202) \<or> c = 8232 \<or> c = 8233 \<or> c = 8239 \<or> c = 8287 \<or> c = 12288"

definition py_strip :: "ustr \<Rightarrow> ustr" where
  "py_strip s = rev (dropWhile py_isspace (rev (dropWhile py_isspace s)))"

text \<open>\<open>s.split()\<close>: the maximal runs of non-space characters; \<open>w\<close> is the word being read.\<close>

fun split_ws :: "ustr \<Rightarrow> ustr \<Rightarrow> ustr list" where
  "split_ws w [] = (if w = [] then [] else [w])"
| "split_ws w (c # cs) =
     (if py_isspace c then (if w = [] then split_ws [] cs else w # split_ws [] cs)
      else split_ws (w @ [c]) cs)"

definition py_split :: "ustr \<Rightarrow> ustr list" where
  "py_split s = split_ws [] s"

definition startswith :: "ustr \<Rightarrow> ustr \<Rightarrow> bool" where
  "startswith s p \<longleftrightarrow> take (length p) s = p"

text \<open>\<open>sub in s\<close> for strings.\<close>

fun py_contains :: "ustr \<Rightarrow> ustr \<Rightarrow> bool" where
  "py_contains sub [] = (sub = [])"
| "py_contains sub (c # cs) = (startswith (c # cs) sub \<or> py_contains sub cs)"

text \<open>
  \<open>str.lower\<close> is a table of the Unicode database and is not a function of single
  characters (it may change the length). The operations below take it as the parameter
  \<open>lower\<close>; \<open>lower_basic\<close> is its restriction to Basic Latin and the Russian alphabet, for
  evaluating concrete messages.
\<close>

definition lower_char :: "nat \<Rightarrow> nat" where
  "lower_char c =
     (if 65 \<le> c \<and> c \<le> 90 then c + 32
      else if 1040 \<le> c \<and> c \<le> 1071 then c + 32
      else if c = 1025 then 1105
      else c)"

definition lower_basic :: "ustr \<Rightarrow> ustr" where
  "lower_basic s = map lower_char s"

section \<open>Agents and their responses (agents/base_agent.py)\<close>

datatype error = Exception ustr

datatype pyval = PNone | PBool bool | PInt int | PStr ustr

text \<open>Truth value of a Python object, as \<open>if x:\<close> reads it.\<close>

fun truthy :: "pyval \<Rightarrow> bool" where
  "truthy PNone = False"
| "truthy (PBool b) = b"
| "truthy (PInt i) = (i \<noteq> 0)"
| "truthy (PStr s) = (s \<noteq> [])"

type_synonym "context" = "ustr \<rightharpoonup> pyval"

text \<open>\<open>context.get(key, False)\<close>\<close>

definition ctx_get :: "context \<Rightarrow> ustr \<Rightarrow> pyval" where
  "ctx_get ctx k = (case ctx k of None \<Rightarrow> PBool False | Some v \<Rightarrow> v)"

datatype mval = MInt int | MStrs "ustr list"

record AgentResponse =
  rtext :: ustr
  success :: bool
  metadata :: "(ustr \<times> mval) list option"
  suggested_actions :: "ustr list option"

text \<open>
  An agent: its name, \<open>can_handle\<close> (a confidence, or the exception it raised) and
  \<open>process\<close>. A confidence is a Python float, read as the real number it denotes; the
  literal \<open>0.3\<close> of the source is the double just below \<open>3/10\<close>, and no double lies
  between the two, so \<open>score > 0.3\<close> on doubles is \<open>score > 3/10\<close> on the reals.
\<close>

record agent =
  name :: ustr
  can_handle :: "ustr \<Rightarrow> context \<Rightarrow> error + real"
  process :: "ustr \<Rightarrow> context \<Rightarrow> AgentResponse"

section \<open>Calls made to collaborators\<close>

record completion_request =
  messages :: "(ustr \<times> ustr) list"
  temperature :: real
  max_tokens :: "nat option"

record rerank_request =
  rr_query :: ustr
  rr_documents :: "ustr list"
  rr_top_n :: nat

text \<open>
  The trace of a run: every call that leaves the function, in order. \<open>AnalyzeIntent\<close> marks
  the intent classification of the router, \<open>Sleep\<close> an \<open>asyncio.sleep\<close> of so many seconds.
\<close>

datatype event =
    AnalyzeIntent ustr
  | Complete completion_request
  | CanHandle ustr
  | Process ustr
  | EmbedText ustr
  | SearchSimilar nat
  | SearchDocuments ustr nat
  | GetDocument ustr
  | Rerank rerank_request
  | ExtractMetadata ustr
  | UpsertNote ustr
  | GetAllDocuments nat
  | GetStats
  | ProcessBatch "ustr list"
  | Sleep nat

section \<open>The message director (agents/director.py)\<close>

record director =
  agents :: "agent list"
  agent_map :: "ustr \<rightharpoonup> agent"
  llm_complete :: "completion_request \<Rightarrow> error + ustr"

definition register_agent :: "director \<Rightarrow> agent \<Rightarrow> director" where
  "register_agent d a = d\<lparr>agents := agents d @ [a], agent_map := (agent_map d)(name a \<mapsto> a)\<rparr>"

definition get_agent :: "director \<Rightarrow> ustr \<Rightarrow> agent option" where
  "get_agent d n = agent_map d n"

definition interrogatives :: "ustr list" where
  "interrogatives =
     [[1095, 1090, 1086], [1075, 1076, 1077], [1082, 1086, 1075, 1076, 1072], [1082, 1072, 1082],
      [1087, 1086, 1095, 1077, 1084, 1091], [1082, 1090, 1086],
      u ''what'', u ''where'', u ''when'', u ''how'', u ''why'', u ''who'']"

definition intent_system_prompt :: ustr where
  "intent_system_prompt =
     u ''You are an intent classifier. '' @ [10] @
     u ''Classify the user message as one of:'' @ [10] @
     u ''- '' @ [34] @ u ''question'' @ [34] @ u '' - if user is asking something'' @ [10] @
     u ''- '' @ [34] @ u ''note'' @ [34] @ u '' - if user is saving information/thoughts'' @ [10] @
     u ''- '' @ [34] @ u ''command'' @ [34] @ u '' - if user is giving a command'' @ [10, 10] @
     u ''Respond with just one word: question, note, or command.''"

definition intent_request :: "ustr \<Rightarrow> completion_request" where
  "intent_request message =
     \<lparr>messages = [(u ''system'', intent_system_prompt), (u ''user'', u ''Message: '' @ message)],
      temperature = 1 / 10, max_tokens = None\<rparr>"

text \<open>
  \<open>_analyze_intent\<close>: the heuristics in the order of the source, then the completion call.
  A failed call and an answer outside the three words both end in \<open>note\<close>.
\<close>

definition analyze_intent ::
  "(ustr \<Rightarrow> ustr) \<Rightarrow> (completion_request \<Rightarrow> error + ustr) \<Rightarrow> ustr \<Rightarrow> event list \<times> ustr" where
  "analyze_intent lower llm message =
     (if startswith (py_strip message) [47] then ([], u ''command'')
      else if 63 \<in> set message \<or> list_ex (\<lambda>q. startswith (lower message) q) interrogatives
        then ([], u ''question'')
      else if length (py_split message) < 15 then ([], u ''note'')
      else
        (case llm (intent_request message) of
           Inl e \<Rightarrow> ([Complete (intent_request message)], u ''note'')
         | Inr response \<Rightarrow>
             (let intent = lower (py_strip response)
              in ([Complete (intent_request message)],
                  if intent \<in> set [u ''question'', u ''note'', u ''command''] then intent
                  else u ''note''))))"

definition no_agents_response :: AgentResponse where
  "no_agents_response =
     \<lparr>rtext = u ''No agents available to handle this message.'', success = False,
      metadata = None, suggested_actions = None\<rparr>"

text \<open>\<open>route_message\<close>: the trace of the routing and the response of the agent it chose.\<close>

definition route_message ::
  "(ustr \<Rightarrow> ustr) \<Rightarrow> director \<Rightarrow> ustr \<Rightarrow> context \<Rightarrow> event list \<times> AgentResponse" where
  "route_message lower d message ctx =
     (case (if truthy (ctx_get ctx (u ''awaiting_research'')) then get_agent d (u ''research'')
            else None) of
        Some research_agent \<Rightarrow>
          ([Process (name research_agent)], process research_agent message ctx)
      | None \<Rightarrow>
          (let (ev, intent) = analyze_intent lower (llm_complete d) message
           in case (if intent = u ''question'' then get_agent d (u ''qa'') else None) of
                Some qa_agent \<Rightarrow>
                  (AnalyzeIntent message # ev @ [Process (name qa_agent)],
                   process qa_agent message ctx)
              | None \<Rightarrow>
                  (case get_agent d (u ''note_taker'') of
                     Some note_taker \<Rightarrow>
                       (AnalyzeIntent message # ev @ [Process (name note_taker)],
                        process note_taker message ctx)
                   | None \<Rightarrow> (AnalyzeIntent message # ev, no_agents_response))))"

text \<open>The score \<open>select_best_agent\<close> records for an agent: an exception counts as \<open>0.0\<close>.\<close>

definition agent_score :: "agent \<Rightarrow> ustr \<Rightarrow> context \<Rightarrow> real" where
  "agent_score a message ctx = (case can_handle a message ctx of Inl e \<Rightarrow> 0 | Inr s \<Rightarrow> s)"

text \<open>
  \<open>select_best_agent\<close>. \<open>scores.sort(key=..., reverse=True)\<close> is stable, so it is the stable
  sort on the negated score. \<open>scores[0]\<close> is read from a list that is not empty.
\<close>

definition select_best_agent :: "director \<Rightarrow> ustr \<Rightarrow> context \<Rightarrow> event list \<times> agent option" where
  "select_best_agent d message ctx =
     (if agents d = [] then ([], None)
      else
        (let scores = map (\<lambda>a. (a, agent_score a message ctx)) (agents d);
             sorted_scores = sort_key (\<lambda>x. - snd x) scores
         in (map (\<lambda>a. CanHandle (name a)) (agents d),
             case sorted_scores of
               [] \<Rightarrow> None
             | (best_agent, best_score) # rest \<Rightarrow>
                 if best_score > 3 / 10 then Some best_agent else None)))"

section \<open>Shared agent helpers (agents/base_agent.py)\<close>

definition question_words :: "ustr list" where
  "question_words =
     [[1095, 1090, 1086], [1075, 1076, 1077], [1082, 1086, 1075, 1076, 1072], [1082, 1072, 1082],
      [1087, 1086, 1095, 1077, 1084, 1091], [1079, 1072, 1095, 1077, 1084], [1082, 1090, 1086],
      [1095, 1077, 1084],
      u ''what'', u ''where'', u ''when'', u ''how'', u ''why'', u ''who'', u ''which'']"

definition is_question :: "(ustr \<Rightarrow> ustr) \<Rightarrow> ustr \<Rightarrow> bool" where
  "is_question lower message \<longleftrightarrow>
     63 \<in> set message \<or> list_ex (\<lambda>word. startswith (lower message) (word @ [32])) question_words"

definition stop_words :: "ustr list" where
  "stop_words =
     [u ''the'', u ''a'', u ''an'', u ''and'', u ''or'', u ''but'', u ''in'', u ''on'', u ''at'',
      u ''to'', u ''for'', u ''of'', u ''with'', u ''by'', u ''from'', u ''as'', u ''is'', u ''was'',
      u ''are'', u ''were'', [1080], [1074], [1085, 1072], [1089], [1087, 1086],
      [1076, 1083, 1103], [1080, 1079], [1082], [1086, 1090], [1086], [1101, 1090, 1086],
      [1082, 1072, 1082]]"

definition extract_keywords :: "(ustr \<Rightarrow> ustr) \<Rightarrow> ustr \<Rightarrow> ustr list" where
  "extract_keywords lower txt =
     take 10 (filter (\<lambda>w. length w > 3 \<and> w \<notin> set stop_words) (py_split (lower txt)))"

section \<open>Documents, hits and the services of the pipeline\<close>

text \<open>
  A CouchDB document as the code reads it: every key may be missing (\<open>doc.get\<close>).
\<close>

record doc =
  doc_id :: "ustr option"
  path :: "ustr option"
  data :: "ustr option"
  ctime :: "int option"
  mtime :: "int option"

text \<open>\<open>doc.get('data', '')\<close>, \<open>doc.get('path', '')\<close> and \<open>doc.get('_id') or doc.get('path', '')\<close>\<close>

definition doc_data :: "doc \<Rightarrow> ustr" where
  "doc_data d = (case data d of None \<Rightarrow> [] | Some s \<Rightarrow> s)"

definition doc_path :: "doc \<Rightarrow> ustr" where
  "doc_path d = (case path d of None \<Rightarrow> [] | Some s \<Rightarrow> s)"

definition doc_note_id :: "doc \<Rightarrow> ustr" where
  "doc_note_id d = (case doc_id d of None \<Rightarrow> doc_path d | Some i \<Rightarrow> if i = [] then doc_path d else i)"

text \<open>
  One formatted result of \<open>VectorStoreClient.search_similar\<close>. The payload's \<open>note_id\<close> is the
  string \<open>upsert_note\<close> stored; its \<open>category\<close> may be \<open>None\<close>.
\<close>

record vhit =
  note_id :: ustr
  score :: real
  category :: "ustr option"
  tags :: "ustr list"
  hit_keywords :: "ustr list"
  summary :: ustr
  hit_mtime :: int

text \<open>
  A candidate of stage 2 is one of two dictionaries: a vector result with
  \<open>search_source = 'vector'\<close> and \<open>search_score = score\<close> added, or the five keys built
  for a full-text document (\<open>search_source = 'fulltext'\<close>, \<open>search_score = 0.7\<close>).
\<close>

datatype candidate =
    VectorCand vhit
  | TextCand (tc_note_id: ustr) (tc_summary: ustr) (tc_category: ustr)

fun cand_note_id :: "candidate \<Rightarrow> ustr" where
  "cand_note_id (VectorCand h) = note_id h"
| "cand_note_id (TextCand i s c) = i"



text \<open>\<open>cand.get('summary', '')\<close>, \<open>cand.get('category', '')\<close> and \<open>cand.get('tags', [])\<close>\<close>

fun cand_summary :: "candidate \<Rightarrow> ustr" where
  "cand_summary (VectorCand h) = summary h"
| "cand_summary (TextCand i s c) = s"

fun cand_category :: "candidate \<Rightarrow> ustr option" where
  "cand_category (VectorCand h) = category h"
| "cand_category (TextCand i s c) = Some c"

fun cand_tags :: "candidate \<Rightarrow> ustr list" where
  "cand_tags (VectorCand h) = tags h"
| "cand_tags (TextCand i s c) = []"

type_synonym embedding = "real list"

type_synonym filters = "(ustr \<times> ustr list) list"

text \<open>
  The collaborators of the agents, each call answering with a value or with the exception
  it raised. \<open>cohere_client\<close> is \<open>None\<close> when no reranker was configured; the indices of a
  rerank response are natural numbers.
\<close>

record services =
  embed_text :: "ustr \<Rightarrow> error + embedding"
  complete :: "completion_request \<Rightarrow> error + ustr"
  search_similar :: "embedding \<Rightarrow> nat \<Rightarrow> filters \<Rightarrow> real \<Rightarrow> error + vhit list"
  search_documents :: "ustr \<Rightarrow> nat \<Rightarrow> error + doc list"
  get_document :: "ustr \<Rightarrow> error + doc"
  cohere_client :: "(rerank_request \<Rightarrow> error + nat list) option"

section \<open>The Q&A agent (agents/qa_agent.py)\<close>

definition qa_nothing_found_text :: ustr where
  "qa_nothing_found_text =
     [129335, 32, 1053, 1077, 32, 1085, 1072, 1096, 1077, 1083, 32, 1088, 1077, 1083] @
     [1077, 1074, 1072, 1085, 1090, 1085, 1099, 1093, 32, 1079, 1072, 1084, 1077, 1090] @
     [1086, 1082, 32, 1087, 1086, 32, 1074, 1072, 1096, 1077, 1084, 1091, 32, 1074] @
     [1086, 1087, 1088, 1086, 1089, 1091, 46]"

definition qa_error_prefix :: ustr where
  "qa_error_prefix =
     [10060, 32, 1054, 1096, 1080, 1073, 1082, 1072, 32, 1087, 1088, 1080, 32, 1087] @
     [1086, 1080, 1089, 1082, 1077, 32, 1086, 1090, 1074, 1077, 1090, 1072, 58, 32]"

definition qa_not_loaded_text :: ustr where
  "qa_not_loaded_text =
     [129335, 32, 1053, 1072, 1096, 1077, 1083, 32, 1079, 1072, 1084, 1077, 1090, 1082] @
     [1080, 44, 32, 1085, 1086, 32, 1085, 1077, 32, 1089, 1084, 1086, 1075, 32] @
     [1080, 1093, 32, 1079, 1072, 1075, 1088, 1091, 1079, 1080, 1090, 1100, 46]"

definition qa_sources_header :: ustr where
  "qa_sources_header =
     [10, 10, 128218, 32, 42, 42, 1048, 1089, 1090, 1086, 1095, 1085, 1080, 1082] @
     [1080, 58, 42, 42, 10]"

definition qa_system_prompt :: ustr where
  "qa_system_prompt =
     [1058, 1099, 32, 1087, 1086, 1084, 1086, 1097, 1085, 1080, 1082, 44, 32, 1082] @
     [1086, 1090, 1086, 1088, 1099, 1081, 32, 1086, 1090, 1074, 1077, 1095, 1072, 1077] @
     [1090, 32, 1085, 1072, 32, 1074, 1086, 1087, 1088, 1086, 1089, 1099, 32, 1085] @
     [1072, 32, 1086, 1089, 1085, 1086, 1074, 1077, 32, 1073, 1072, 1079, 1099, 32] @
     [1079, 1085, 1072, 1085, 1080, 1081, 32, 1087, 1086, 1083, 1100, 1079, 1086, 1074] @
     [1072, 1090, 1077, 1083, 1103, 46, 10, 10, 1055, 1088, 1072, 1074, 1080, 1083] @
     [1072, 58, 10, 45, 32, 1054, 1090, 1074, 1077, 1095, 1072, 1081, 32, 1085] @
     [1072, 32, 1088, 1091, 1089, 1089, 1082, 1086, 1084, 32, 1103, 1079, 1099, 1082] @
     [1077, 32, 40, 1077, 1089, 1083, 1080, 32, 1074, 1086, 1087, 1088, 1086, 1089] @
     [32, 1085, 1072, 32, 1088, 1091, 1089, 1089, 1082, 1086, 1084, 41, 10, 45] @
     [32, 1048, 1089, 1087, 1086, 1083, 1100, 1079, 1091, 1081, 32, 1090, 1086, 1083] @
     [1100, 1082, 1086, 32, 1080, 1085, 1092, 1086, 1088, 1084, 1072, 1094, 1080, 1102] @
     [32, 1080, 1079, 32, 1087, 1088, 1077, 1076, 1086, 1089, 1090, 1072, 1074, 1083] @
     [1077, 1085, 1085, 1099, 1093, 32, 1076, 1086, 1082, 1091, 1084, 1077, 1085, 1090] @
     [1086, 1074, 10, 45, 32, 1045, 1089, 1083, 1080, 32, 1080, 1085, 1092, 1086] @
     [1088, 1084, 1072, 1094, 1080, 1080, 32, 1085, 1077, 1076, 1086, 1089, 1090, 1072] @
     [1090, 1086, 1095, 1085, 1086, 44, 32, 1090, 1072, 1082, 32, 1080, 32, 1089] @
     [1082, 1072, 1078, 1080, 10, 45, 32, 1041, 1091, 1076, 1100, 32, 1082, 1088] @
     [1072, 1090, 1082, 1080, 1084, 32, 1080, 32, 1087, 1086, 32, 1076, 1077, 1083] @
     [1091, 10, 45, 32, 1057, 1089, 1099, 1083, 1072, 1081, 1089, 1103, 32, 1085] @
     [1072, 32, 1082, 1086, 1085, 1082, 1088, 1077, 1090, 1085, 1099, 1077, 32, 1076] @
     [1086, 1082, 1091, 1084, 1077, 1085, 1090, 1099, 32, 1087, 1088, 1080, 32, 1085] @
     [1077, 1086, 1073, 1093, 1086, 1076, 1080, 1084, 1086, 1089, 1090, 1080]"

definition qa_prompt_question :: ustr where
  "qa_prompt_question =
     [1042, 1086, 1087, 1088, 1086, 1089, 58, 32]"

definition qa_prompt_context :: ustr where
  "qa_prompt_context =
     [10, 10, 1050, 1086, 1085, 1090, 1077, 1082, 1089, 1090, 32, 1080, 1079, 32] @
     [1073, 1072, 1079, 1099, 32, 1079, 1085, 1072, 1085, 1080, 1081, 58, 10]"

definition qa_prompt_tail :: ustr where
  "qa_prompt_tail =
     [10, 10, 1054, 1090, 1074, 1077, 1090, 1100, 32, 1085, 1072, 32, 1074, 1086] @
     [1087, 1088, 1086, 1089, 44, 32, 1080, 1089, 1087, 1086, 1083, 1100, 1079, 1091] @
     [1103, 32, 1080, 1085, 1092, 1086, 1088, 1084, 1072, 1094, 1080, 1102, 32, 1080] @
     [1079, 32, 1082, 1086, 1085, 1090, 1077, 1082, 1089, 1090, 1072, 46]"

definition qa_answer_failed_text :: ustr where
  "qa_answer_failed_text =
     [10060, 32, 1053, 1077, 32, 1091, 1076, 1072, 1083, 1086, 1089, 1100, 32, 1089] @
     [1075, 1077, 1085, 1077, 1088, 1080, 1088, 1086, 1074, 1072, 1090, 1100, 32, 1086] @
     [1090, 1074, 1077, 1090, 46]"

definition qa_can_handle :: "(ustr \<Rightarrow> ustr) \<Rightarrow> ustr \<Rightarrow> context \<Rightarrow> error + real" where
  "qa_can_handle lower message ctx = Inr (if is_question lower message then 9 / 10 else 1 / 10)"

definition stage1_metadata_filter :: "ustr list \<Rightarrow> filters" where
  "stage1_metadata_filter kws = []"

text \<open>
  Stage 2, vector half: a failed embedding or search leaves the candidates empty.
\<close>

definition vector_search :: "services \<Rightarrow> ustr \<Rightarrow> filters \<Rightarrow> event list \<times> candidate list" where
  "vector_search sv query flt =
     (case embed_text sv query of
        Inl e \<Rightarrow> ([EmbedText query], [])
      | Inr query_embedding \<Rightarrow>
          (case search_similar sv query_embedding 30 flt (3 / 10) of
             Inl e \<Rightarrow> ([EmbedText query, SearchSimilar 30], [])
           | Inr vector_results \<Rightarrow>
               ([EmbedText query, SearchSimilar 30], map VectorCand vector_results)))"

text \<open>\<open>path.rsplit('/', 1)[0]\<close> for a path that contains \<open>/\<close>: all before the last slash.\<close>

definition rsplit_slash_head :: "ustr \<Rightarrow> ustr" where
  "rsplit_slash_head p = rev (drop 1 (dropWhile (\<lambda>c. c \<noteq> 47) (rev p)))"

definition fulltext_candidate :: "doc \<Rightarrow> candidate" where
  "fulltext_candidate d =
     TextCand (doc_note_id d) (take 200 (doc_data d))
       (if 47 \<in> set (doc_path d) then rsplit_slash_head (doc_path d) else u ''Inbox'')"

text \<open>
  Stage 2, full-text half: \<open>existing_ids\<close> is computed once, from the candidates the vector
  half left, and a document is appended when its identifier is not among them.
\<close>

definition fulltext_search ::
  "services \<Rightarrow> ustr \<Rightarrow> candidate list \<Rightarrow> event list \<times> candidate list" where
  "fulltext_search sv query candidates =
     (case search_documents sv query 30 of
        Inl e \<Rightarrow> ([SearchDocuments query 30], candidates)
      | Inr text_results \<Rightarrow>
          (let existing_ids = set (map cand_note_id candidates)
           in ([SearchDocuments query 30],
               candidates @
               map fulltext_candidate
                 (filter (\<lambda>d. doc_note_id d \<notin> existing_ids) text_results))))"

definition stage2_hybrid_search ::
  "services \<Rightarrow> ustr \<Rightarrow> filters \<Rightarrow> nat \<Rightarrow> event list \<times> candidate list" where
  "stage2_hybrid_search sv query flt limit =
     (let (ev1, candidates) = vector_search sv query flt;
          (ev2, candidates') = fulltext_search sv query candidates
      in (ev1 @ ev2, take limit candidates'))"

text \<open>\<open>str(i)\<close> for a natural number, as the f-strings print list positions and counts.\<close>

fun str_nat :: "nat \<Rightarrow> ustr" where
  "str_nat n = (if n < 10 then [48 + n] else str_nat (n div 10) @ [48 + n mod 10])"

declare str_nat.simps [simp del]

record context_doc =
  cd_path :: ustr
  cd_content :: ustr
  cd_category :: "ustr option"

text \<open>
  Stage 3, the texts sent to the reranker: the summary, or without one the first 500
  characters of the stored document, or the identifier when the document does not load.
\<close>

fun docs_for_rerank :: "services \<Rightarrow> candidate list \<Rightarrow> event list \<times> ustr list" where
  "docs_for_rerank sv [] = ([], [])"
| "docs_for_rerank sv (cand # cands) =
     (let (ev, txt) =
            (if cand_summary cand \<noteq> [] then ([], cand_summary cand)
             else (case get_document sv (cand_note_id cand) of
                     Inl e \<Rightarrow> ([GetDocument (cand_note_id cand)], cand_note_id cand)
                   | Inr d \<Rightarrow> ([GetDocument (cand_note_id cand)], take 500 (doc_data d))));
          (evs, txts) = docs_for_rerank sv cands
      in (ev @ evs, txt # txts))"

text \<open>
  The indices stage 3 keeps. Without a client, without texts, or when the rerank call
  raises, they are \<open>range(min(top_k, len(candidates)))\<close>.
\<close>

definition qa_rerank ::
  "services \<Rightarrow> ustr \<Rightarrow> candidate list \<Rightarrow> ustr list \<Rightarrow> nat \<Rightarrow> event list \<times> nat list" where
  "qa_rerank sv question candidates docs top_k =
     (case cohere_client sv of
        None \<Rightarrow> ([], [0..<min top_k (length candidates)])
      | Some rerank \<Rightarrow>
          if docs = [] then ([], [0..<min top_k (length candidates)])
          else
            (let req = \<lparr>rr_query = question, rr_documents = docs,
                        rr_top_n = min top_k (length docs)\<rparr>
             in case rerank req of
                  Inl e \<Rightarrow> ([Rerank req], [0..<min top_k (length candidates)])
                | Inr indices \<Rightarrow> ([Rerank req], indices)))"

text \<open>\<open>[candidates[i] for i in indices]\<close>: an index out of range raises IndexError.\<close>

fun index_all :: "'a list \<Rightarrow> nat list \<Rightarrow> error + 'a list" where
  "index_all xs [] = Inr []"
| "index_all xs (i # is) =
     (if i < length xs
      then (case index_all xs is of Inl e \<Rightarrow> Inl e | Inr ys \<Rightarrow> Inr (xs ! i # ys))
      else Inl (Exception (u ''list index out of range'')))"

text \<open>Loading the kept candidates: a document that does not load is dropped.\<close>

fun load_context_docs :: "services \<Rightarrow> candidate list \<Rightarrow> event list \<times> context_doc list" where
  "load_context_docs sv [] = ([], [])"
| "load_context_docs sv (cand # cands) =
     (let (evs, docs) = load_context_docs sv cands
      in case get_document sv (cand_note_id cand) of
           Inl e \<Rightarrow> (GetDocument (cand_note_id cand) # evs, docs)
         | Inr d \<Rightarrow>
             (GetDocument (cand_note_id cand) # evs,
              \<lparr>cd_path = cand_note_id cand, cd_content = take 2000 (doc_data d),
               cd_category = cand_category cand\<rparr> # docs))"

fun qa_context_text :: "nat \<Rightarrow> context_doc list \<Rightarrow> ustr" where
  "qa_context_text i [] = []"
| "qa_context_text i (d # ds) =
     [10] @ u ''--- Document '' @ str_nat i @ u '': '' @ cd_path d @ u '' ---'' @ [10] @
     cd_content d @ [10] @ qa_context_text (Suc i) ds"

definition answer_request :: "ustr \<Rightarrow> context_doc list \<Rightarrow> completion_request" where
  "answer_request question context_docs =
     \<lparr>messages =
        [(u ''system'', qa_system_prompt),
         (u ''user'',
          qa_prompt_question @ question @ qa_prompt_context @
          take 6000 (qa_context_text 1 context_docs) @ qa_prompt_tail)],
      temperature = 1 / 2, max_tokens = Some 1000\<rparr>"

definition generate_answer :: "services \<Rightarrow> ustr \<Rightarrow> context_doc list \<Rightarrow> event list \<times> ustr" where
  "generate_answer sv question context_docs =
     (case complete sv (answer_request question context_docs) of
        Inl e \<Rightarrow> ([Complete (answer_request question context_docs)], qa_answer_failed_text)
      | Inr answer \<Rightarrow> ([Complete (answer_request question context_docs)], py_strip answer))"

fun qa_sources_lines :: "nat \<Rightarrow> context_doc list \<Rightarrow> ustr" where
  "qa_sources_lines i [] = []"
| "qa_sources_lines i (d # ds) =
     str_nat i @ u ''. '' @ [96] @ cd_path d @ [96, 10] @ qa_sources_lines (Suc i) ds"

text \<open>
  \<open>_stage3_rerank_and_analyze\<close>. The candidates it kept are \<open>top_candidates\<close>; the
  response counts them under \<open>reranked_count\<close>.
\<close>

definition top_candidates ::
  "services \<Rightarrow> ustr \<Rightarrow> candidate list \<Rightarrow> nat \<Rightarrow> event list \<times> (error + candidate list)" where
  "top_candidates sv question candidates top_k =
     (let (ev1, docs) = docs_for_rerank sv candidates;
          (ev2, reranked_indices) = qa_rerank sv question candidates docs top_k
      in (ev1 @ ev2, index_all candidates (take top_k reranked_indices)))"

definition stage3_rerank_and_analyze ::
  "services \<Rightarrow> ustr \<Rightarrow> candidate list \<Rightarrow> nat \<Rightarrow> event list \<times> (error + AgentResponse)" where
  "stage3_rerank_and_analyze sv question candidates top_k =
     (case top_candidates sv question candidates top_k of
        (ev1, Inl e) \<Rightarrow> (ev1, Inl e)
      | (ev1, Inr top_cands) \<Rightarrow>
          (let (ev2, context_docs) = load_context_docs sv top_cands
           in if context_docs = []
              then (ev1 @ ev2,
                    Inr \<lparr>rtext = qa_not_loaded_text, success = True,
                         metadata = Some [(u ''found_count'', MInt (int (length candidates)))],
                         suggested_actions = None\<rparr>)
              else
                (let (ev3, answer_text) = generate_answer sv question context_docs
                 in (ev1 @ ev2 @ ev3,
                     Inr \<lparr>rtext = answer_text @ qa_sources_header @
                                  qa_sources_lines 1 (take 5 context_docs),
                          success = True,
                          metadata =
                            Some [(u ''found_count'', MInt (int (length candidates))),
                                  (u ''reranked_count'', MInt (int (length top_cands))),
                                  (u ''sources'', MStrs (map cd_path context_docs))],
                          suggested_actions = None\<rparr>))))"

text \<open>
  \<open>QAAgent.process\<close>: an exception of the stages becomes a response with
  \<open>success = False\<close>.
\<close>

definition qa_process ::
  "(ustr \<Rightarrow> ustr) \<Rightarrow> services \<Rightarrow> ustr \<Rightarrow> context \<Rightarrow> event list \<times> AgentResponse" where
  "qa_process lower sv message ctx =
     (let kws = extract_keywords lower message;
          metadata_filters = stage1_metadata_filter kws;
          (ev2, candidates) = stage2_hybrid_search sv message metadata_filters 50
      in if candidates = []
         then (ev2,
               \<lparr>rtext = qa_nothing_found_text, success = True,
                metadata = Some [(u ''found_count'', MInt 0)], suggested_actions = None\<rparr>)
         else
           (case stage3_rerank_and_analyze sv message candidates 10 of
              (ev3, Inr answer) \<Rightarrow> (ev2 @ ev3, answer)
            | (ev3, Inl (Exception msg)) \<Rightarrow>
                (ev2 @ ev3,
                 \<lparr>rtext = qa_error_prefix @ msg, success = False, metadata = None,
                  suggested_actions = None\<rparr>)))"

definition qa_agent :: "(ustr \<Rightarrow> ustr) \<Rightarrow> services \<Rightarrow> agent" where
  "qa_agent lower sv =
     \<lparr>name = u ''qa'', can_handle = qa_can_handle lower,
      process = (\<lambda>message ctx. snd (qa_process lower sv message ctx))\<rparr>"

section \<open>The research agent (agents/research_agent.py)\<close>

definition research_nothing_found_text :: ustr where
  "research_nothing_found_text =
     [128269, 32, 1053, 1077, 32, 1085, 1072, 1096, 1077, 1083, 32, 1076, 1086, 1089] @
     [1090, 1072, 1090, 1086, 1095, 1085, 1086, 32, 1084, 1072, 1090, 1077, 1088, 1080] @
     [1072, 1083, 1072, 32, 1076, 1083, 1103, 32, 1080, 1089, 1089, 1083, 1077, 1076] @
     [1086, 1074, 1072, 1085, 1080, 1103, 32, 1101, 1090, 1086, 1081, 32, 1090, 1077] @
     [1084, 1099, 46]"

definition research_not_processed_text :: ustr where
  "research_not_processed_text =
     [128269, 32, 1053, 1072, 1096, 1077, 1083, 32, 1079, 1072, 1084, 1077, 1090, 1082] @
     [1080, 44, 32, 1085, 1086, 32, 1085, 1077, 32, 1089, 1084, 1086, 1075, 32] @
     [1080, 1093, 32, 1086, 1073, 1088, 1072, 1073, 1086, 1090, 1072, 1090, 1100, 46]"

definition research_error_prefix :: ustr where
  "research_error_prefix =
     [10060, 32, 1054, 1096, 1080, 1073, 1082, 1072, 32, 1087, 1088, 1080, 32, 1080] @
     [1089, 1089, 1083, 1077, 1076, 1086, 1074, 1072, 1085, 1080, 1080, 58, 32]"

definition pass1_failed_text :: ustr where
  "pass1_failed_text =
     [1053, 1077, 32, 1091, 1076, 1072, 1083, 1086, 1089, 1100, 32, 1089, 1086, 1079] @
     [1076, 1072, 1090, 1100, 32, 1086, 1073, 1079, 1086, 1088, 46]"

definition pass2_failed_text :: ustr where
  "pass2_failed_text =
     [1053, 1077, 32, 1091, 1076, 1072, 1083, 1086, 1089, 1100, 32, 1087, 1088, 1086] @
     [1072, 1085, 1072, 1083, 1080, 1079, 1080, 1088, 1086, 1074, 1072, 1090, 1100, 32] @
     [1089, 1074, 1103, 1079, 1080, 46]"

definition pass3_failed_text :: ustr where
  "pass3_failed_text =
     [1053, 1077, 32, 1091, 1076, 1072, 1083, 1086, 1089, 1100, 32, 1089, 1080, 1085] @
     [1090, 1077, 1079, 1080, 1088, 1086, 1074, 1072, 1090, 1100, 32, 1074, 1099, 1074] @
     [1086, 1076, 1099, 46]"

definition pass1_prompt_head :: ustr where
  "pass1_prompt_head =
     u ''Analyze these documents about '' @ [34]"

definition pass1_prompt_mid :: ustr where
  "pass1_prompt_mid =
     [34] @ u '' and provide:'' @ [10, 10] @ u ''1. A brief overview (3-4 sentences)'' @ [10] @
     u ''2. Key themes and topics (bullet points)'' @ [10] @ u ''3. Main concepts mentioned'' @
     [10, 10] @ u ''Documents:'' @ [10]"

definition pass1_prompt_tail :: ustr where
  "pass1_prompt_tail =
     [10, 10] @ u ''Respond in Russian with clear structure.''"

definition pass2_prompt_head :: ustr where
  "pass2_prompt_head =
     u ''Analyze connections and relationships in these documents abo'' @ u ''ut '' @ [34]"

definition pass2_prompt_mid :: ustr where
  "pass2_prompt_mid =
     [34] @ u '':'' @ [10, 10]"

definition pass2_prompt_tail :: ustr where
  "pass2_prompt_tail =
     [10, 10] @ u ''Identify:'' @ [10] @ u ''1. How documents relate to each other'' @ [10] @
     u ''2. Common patterns or recurring ideas'' @ [10] @
     u ''3. Contradictions or different perspectives'' @ [10] @ u ''4. Knowledge gaps (what'' @
     [39] @ u ''s missing)'' @ [10, 10] @ u ''Respond in Russian.''"

definition pass3_prompt_head :: ustr where
  "pass3_prompt_head =
     u ''Based on the research about '' @ [34]"

definition pass3_prompt_overview :: ustr where
  "pass3_prompt_overview =
     [34] @ u '', synthesize the findings:'' @ [10, 10] @ u ''Overview:'' @ [10]"

definition pass3_prompt_connections :: ustr where
  "pass3_prompt_connections =
     [10, 10] @ u ''Connections:'' @ [10]"

definition pass3_prompt_tail :: ustr where
  "pass3_prompt_tail =
     [10, 10] @ u ''Provide:'' @ [10] @ u ''1. Key insights (3-5 main points)'' @ [10] @
     u ''2. Actionable conclusions'' @ [10] @
     u ''3. Suggested next steps or areas for further exploration'' @ [10, 10] @
     u ''Respond in Russian with clear structure.''"

definition report_head :: ustr where
  "report_head =
     [128269, 32, 42, 42, 1048, 1089, 1089, 1083, 1077, 1076, 1086, 1074, 1072, 1085] @
     [1080, 1077, 58, 42, 42, 32]"

definition report_overview :: ustr where
  "report_overview =
     [10, 10, 128202, 32, 42, 42, 1054, 1041, 1047, 1054, 1056, 42, 42, 10]"

definition report_connections :: ustr where
  "report_connections =
     [10, 10, 128279, 32, 42, 42, 1057, 1042, 1071, 1047, 1048, 32, 1048, 32] @
     [1055, 1040, 1058, 1058, 1045, 1056, 1053, 1067, 42, 42, 10]"

definition report_synthesis :: ustr where
  "report_synthesis =
     [10, 10, 128161, 32, 42, 42, 1042, 1067, 1042, 1054, 1044, 1067, 32, 1048] @
     [32, 1048, 1053, 1057, 1040, 1049, 1058, 1067, 42, 42, 10]"

definition report_sources :: ustr where
  "report_sources =
     [10, 10, 128218, 32, 42, 42, 1048, 1057, 1058, 1054, 1063, 1053, 1048, 1050] @
     [1048, 42, 42, 32, 40]"

definition report_sources_tail :: ustr where
  "report_sources_tail =
     [32, 1076, 1086, 1082, 1091, 1084, 1077, 1085, 1090, 1086, 1074, 41, 10]"

record research_doc = context_doc +
  rd_tags :: "ustr list"

definition research_can_handle :: "ustr \<Rightarrow> context \<Rightarrow> error + real" where
  "research_can_handle message ctx =
     Inr (if truthy (ctx_get ctx (u ''awaiting_research'')) then 1 else 0)"

text \<open>
  \<open>_rerank_and_load\<close>, the indices: all of them when there is no client; the first
  \<open>min(top_k, len(candidates))\<close> when the rerank call raises.
\<close>

definition research_rerank ::
  "services \<Rightarrow> ustr \<Rightarrow> candidate list \<Rightarrow> nat \<Rightarrow> event list \<times> nat list" where
  "research_rerank sv query candidates top_k =
     (let docs = map cand_summary candidates
      in case cohere_client sv of
           None \<Rightarrow> ([], [0..<length candidates])
         | Some rerank \<Rightarrow>
             if docs = [] then ([], [0..<length candidates])
             else
               (let req = \<lparr>rr_query = query, rr_documents = docs,
                           rr_top_n = min top_k (length docs)\<rparr>
                in case rerank req of
                     Inl e \<Rightarrow> ([Rerank req], [0..<min top_k (length candidates)])
                   | Inr indices \<Rightarrow> ([Rerank req], indices)))"

text \<open>
  The loading loop: an index out of range and a document that does not load are both
  caught inside the loop, and the loop goes on.
\<close>

fun load_research_docs ::
  "services \<Rightarrow> candidate list \<Rightarrow> nat list \<Rightarrow> event list \<times> research_doc list" where
  "load_research_docs sv candidates [] = ([], [])"
| "load_research_docs sv candidates (idx # rest) =
     (let (evs, docs) = load_research_docs sv candidates rest
      in if idx < length candidates
         then
           (let cand = candidates ! idx
            in case get_document sv (cand_note_id cand) of
                 Inl e \<Rightarrow> (GetDocument (cand_note_id cand) # evs, docs)
               | Inr d \<Rightarrow>
                   (GetDocument (cand_note_id cand) # evs,
                    \<lparr>cd_path = cand_note_id cand, cd_content = doc_data d,
                     cd_category = cand_category cand, rd_tags = cand_tags cand\<rparr> # docs))
         else (evs, docs))"

definition rerank_and_load ::
  "services \<Rightarrow> ustr \<Rightarrow> candidate list \<Rightarrow> nat \<Rightarrow> event list \<times> research_doc list" where
  "rerank_and_load sv query candidates top_k =
     (let (ev1, reranked_indices) = research_rerank sv query candidates top_k;
          (ev2, docs) = load_research_docs sv candidates (take top_k reranked_indices)
      in (ev1 @ ev2, docs))"

fun pass1_context :: "nat \<Rightarrow> research_doc list \<Rightarrow> ustr" where
  "pass1_context i [] = []"
| "pass1_context i (d # ds) =
     [10] @ u ''--- Doc '' @ str_nat i @ u '': '' @ cd_path d @ u '' ---'' @ [10] @
     take 1500 (cd_content d) @ [10] @ pass1_context (Suc i) ds"

fun pass2_context :: "nat \<Rightarrow> research_doc list \<Rightarrow> ustr" where
  "pass2_context i [] = []"
| "pass2_context i (d # ds) =
     [10] @ str_nat i @ u ''. '' @ cd_path d @ [10] @
     take 1000 (cd_content d) @ [10] @ pass2_context (Suc i) ds"

definition pass1_request :: "ustr \<Rightarrow> research_doc list \<Rightarrow> completion_request" where
  "pass1_request topic documents =
     \<lparr>messages =
        [(u ''system'', u ''You are a research analyst. Provide clear, structured analysis.''),
         (u ''user'',
          pass1_prompt_head @ topic @ pass1_prompt_mid @
          take 8000 (pass1_context 1 (take 15 documents)) @ pass1_prompt_tail)],
      temperature = 4 / 10, max_tokens = Some 1500\<rparr>"

definition pass2_request :: "ustr \<Rightarrow> research_doc list \<Rightarrow> completion_request" where
  "pass2_request topic documents =
     \<lparr>messages =
        [(u ''system'', u ''You are a research analyst focusing on connections and patterns.''),
         (u ''user'',
          pass2_prompt_head @ topic @ pass2_prompt_mid @
          take 8000 (pass2_context 1 (take 15 documents)) @ pass2_prompt_tail)],
      temperature = 4 / 10, max_tokens = Some 1500\<rparr>"

definition pass3_request :: "ustr \<Rightarrow> ustr \<Rightarrow> ustr \<Rightarrow> completion_request" where
  "pass3_request topic overview connections =
     \<lparr>messages =
        [(u ''system'', u ''You are a research analyst synthesizing findings.''),
         (u ''user'',
          pass3_prompt_head @ topic @ pass3_prompt_overview @ overview @
          pass3_prompt_connections @ connections @ pass3_prompt_tail)],
      temperature = 1 / 2, max_tokens = Some 1500\<rparr>"

text \<open>One pass: the completion call, its answer stripped, or the placeholder when it raises.\<close>

definition run_pass :: "services \<Rightarrow> completion_request \<Rightarrow> ustr \<Rightarrow> event list \<times> ustr" where
  "run_pass sv req placeholder =
     (case complete sv req of
        Inl e \<Rightarrow> ([Complete req], placeholder)
      | Inr response \<Rightarrow> ([Complete req], py_strip response))"

text \<open>\<open>", ".join(tags)\<close>\<close>

fun join_comma :: "ustr list \<Rightarrow> ustr" where
  "join_comma [] = []"
| "join_comma [t] = t"
| "join_comma (t # ts) = t @ u '', '' @ join_comma ts"

fun report_source_lines :: "nat \<Rightarrow> research_doc list \<Rightarrow> ustr" where
  "report_source_lines i [] = []"
| "report_source_lines i (d # ds) =
     [10] @ str_nat i @ u ''. '' @ [96] @ cd_path d @ [96] @
     (if rd_tags d \<noteq> [] then u '' ['' @ join_comma (take 3 (rd_tags d)) @ u '']'' else []) @
     report_source_lines (Suc i) ds"

definition format_research_report ::
  "ustr \<Rightarrow> ustr \<Rightarrow> ustr \<Rightarrow> ustr \<Rightarrow> research_doc list \<Rightarrow> ustr" where
  "format_research_report topic overview connections synthesis sources =
     report_head @ topic @ report_overview @ overview @ report_connections @ connections @
     report_synthesis @ synthesis @ report_sources @ str_nat (length sources) @
     report_sources_tail @ report_source_lines 1 (take 10 sources)"

definition multi_pass_analysis ::
  "services \<Rightarrow> ustr \<Rightarrow> research_doc list \<Rightarrow> event list \<times> AgentResponse" where
  "multi_pass_analysis sv topic documents =
     (let (ev1, overview) = run_pass sv (pass1_request topic documents) pass1_failed_text;
          (ev2, connections) = run_pass sv (pass2_request topic documents) pass2_failed_text;
          (ev3, synthesis) =
            run_pass sv (pass3_request topic overview connections) pass3_failed_text
      in (ev1 @ ev2 @ ev3,
          \<lparr>rtext = format_research_report topic overview connections synthesis
                     (take 10 documents),
           success = True,
           metadata =
             Some [(u ''documents_analyzed'', MInt (int (length documents))),
                   (u ''sources'', MStrs (map cd_path (take 10 documents)))],
           suggested_actions = None\<rparr>))"

text \<open>
  \<open>ResearchAgent.process\<close>: stage 2 with the limit 100, then the 30 best. Every call
  below it catches its own exceptions, so the outer handler has nothing to catch here.
\<close>

definition research_process ::
  "(ustr \<Rightarrow> ustr) \<Rightarrow> services \<Rightarrow> ustr \<Rightarrow> context \<Rightarrow> event list \<times> AgentResponse" where
  "research_process lower sv message ctx =
     (let kws = extract_keywords lower message;
          flt = stage1_metadata_filter kws;
          (ev2, candidates) = stage2_hybrid_search sv message flt 100
      in if candidates = []
         then (ev2,
               \<lparr>rtext = research_nothing_found_text, success = True,
                metadata = Some [(u ''found_count'', MInt 0)], suggested_actions = None\<rparr>)
         else
           (let (ev3, top_docs) = rerank_and_load sv message candidates 30
            in if top_docs = []
               then (ev2 @ ev3,
                     \<lparr>rtext = research_not_processed_text, success = True,
                      metadata = Some [(u ''found_count'', MInt (int (length candidates)))],
                      suggested_actions = None\<rparr>)
               else
                 (let (ev4, research_result) = multi_pass_analysis sv message top_docs
                  in (ev2 @ ev3 @ ev4, research_result))))"

definition research_agent :: "(ustr \<Rightarrow> ustr) \<Rightarrow> services \<Rightarrow> agent" where
  "research_agent lower sv =
     \<lparr>name = u ''research'', can_handle = research_can_handle,
      process = (\<lambda>message ctx. snd (research_process lower sv message ctx))\<rparr>"

section \<open>The background indexer (indexer.py)\<close>

text \<open>The keys of an extracted metadata dictionary that the indexer reads.\<close>

record note_metadata =
  md_summary :: ustr
  md_category :: ustr
  md_tags :: "ustr list"
  md_keywords :: "ustr list"

record upsert_payload =
  up_category :: ustr
  up_tags :: "ustr list"
  up_keywords :: "ustr list"
  up_mtime :: int
  up_ctime :: int
  up_summary :: ustr

text \<open>
  The collaborators of the indexer. \<open>vs_get_stats\<close> answers with \<open>total_vectors\<close>.
\<close>

record indexer_services =
  get_all_documents :: "nat \<Rightarrow> error + doc list"
  vs_get_stats :: "error + nat"
  extract_metadata :: "ustr \<Rightarrow> error + note_metadata"
  enrich_frontmatter :: "ustr \<Rightarrow> note_metadata \<Rightarrow> error + ustr"
  ix_get_document :: "ustr \<Rightarrow> error + doc"
  ix_embed_text :: "ustr \<Rightarrow> error + embedding"
  upsert_note :: "ustr \<Rightarrow> embedding \<Rightarrow> upsert_payload \<Rightarrow> error + unit"

record stats =
  total_notes :: nat
  indexed_notes :: nat
  pending_notes :: nat
  failed_notes :: nat
  last_run :: "ustr option"

definition initial_stats :: stats where
  "initial_stats =
     \<lparr>total_notes = 0, indexed_notes = 0, pending_notes = 0, failed_notes = 0, last_run = None\<rparr>"

definition doc_ctime :: "doc \<Rightarrow> int" where
  "doc_ctime d = (case ctime d of None \<Rightarrow> 0 | Some t \<Rightarrow> t)"

definition doc_mtime :: "doc \<Rightarrow> int" where
  "doc_mtime d = (case mtime d of None \<Rightarrow> 0 | Some t \<Rightarrow> t)"

text \<open>
  \<open>_find_pending_notes\<close>: the documents without the marker, oldest first (a stable sort on
  \<open>ctime\<close>), at most 50. Any exception gives the empty list.
\<close>

definition find_pending_notes ::
  "indexer_services \<Rightarrow> stats \<Rightarrow> event list \<times> doc list \<times> stats" where
  "find_pending_notes sv st =
     (case get_all_documents sv 500 of
        Inl e \<Rightarrow> ([GetAllDocuments 500], [], st)
      | Inr all_docs \<Rightarrow>
          (let st1 = st\<lparr>total_notes := length all_docs\<rparr>
           in case vs_get_stats sv of
                Inl e \<Rightarrow> ([GetAllDocuments 500, GetStats], [], st1)
              | Inr indexed_count \<Rightarrow>
                  (let st2 = st1\<lparr>indexed_notes := indexed_count\<rparr>;
                       pending =
                         filter (\<lambda>d. \<not> py_contains (u ''ai_indexed:'') (doc_data d)) all_docs;
                       st3 = st2\<lparr>pending_notes := length pending\<rparr>
                   in ([GetAllDocuments 500, GetStats], take 50 (sort_key doc_ctime pending),
                       st3))))"

text \<open>
  \<open>_index_note\<close>: the result is \<open>Inl\<close> when the call raises. A short note returns at once.
  The document is fetched for an update that is not written; a failure there is only logged.
\<close>

definition index_note ::
  "indexer_services \<Rightarrow> stats \<Rightarrow> doc \<Rightarrow> event list \<times> (error + unit) \<times> stats" where
  "index_note sv st d =
     (let nid = doc_note_id d; content = doc_data d
      in if content = [] \<or> length (py_strip content) < 10 then ([], Inr (), st)
         else
           (case extract_metadata sv content of
              Inl e \<Rightarrow> ([ExtractMetadata content], Inl e, st)
            | Inr md \<Rightarrow>
                (case enrich_frontmatter sv content md of
                   Inl e \<Rightarrow> ([ExtractMetadata content], Inl e, st)
                 | Inr enriched_content \<Rightarrow>
                     (let txt = take 8000 (md_summary md @ [32] @ content);
                          ev = [ExtractMetadata content, GetDocument nid, EmbedText txt]
                      in case ix_embed_text sv txt of
                           Inl e \<Rightarrow> (ev, Inl e, st)
                         | Inr embedding \<Rightarrow>
                             (case upsert_note sv nid embedding
                                     \<lparr>up_category = md_category md, up_tags = md_tags md,
                                      up_keywords = md_keywords md, up_mtime = doc_mtime d,
                                      up_ctime = doc_ctime d, up_summary = md_summary md\<rparr> of
                                Inl e \<Rightarrow> (ev @ [UpsertNote nid], Inl e, st)
                              | Inr ok \<Rightarrow>
                                  (ev @ [UpsertNote nid], Inr (),
                                   st\<lparr>indexed_notes := indexed_notes st + 1\<rparr>))))))"





text \<open>
  \<open>reindex_all\<close>: \<open>_index_note\<close> is called on every pending note inside one \<open>try\<close>; the
  first exception ends the loop. The result is \<open>{'success': True, 'notes_processed': n}\<close>
  or \<open>{'success': False, 'error': str(e)}\<close>.
\<close>

fun index_each ::
  "indexer_services \<Rightarrow> stats \<Rightarrow> doc list \<Rightarrow> event list \<times> (error + unit) \<times> stats" where
  "index_each sv st [] = ([], Inr (), st)"
| "index_each sv st (d # ds) =
     (case index_note sv st d of
        (ev, Inl e, st') \<Rightarrow> (ev, Inl e, st')
      | (ev, Inr ok, st') \<Rightarrow>
          (let (evs, r, st'') = index_each sv st' ds in (ev @ evs, r, st'')))"

datatype reindex_result = ReindexOk (notes_processed: nat) | ReindexFailed ustr

definition reindex_all ::
  "indexer_services \<Rightarrow> stats \<Rightarrow> event list \<times> reindex_result \<times> stats" where
  "reindex_all sv st =
     (let (ev0, pending_notes, st1) = find_pending_notes sv st;
          (ev1, r, st2) = index_each sv st1 pending_notes
      in (ev0 @ ev1,
          (case r of
             Inr ok \<Rightarrow> ReindexOk (length pending_notes)
           | Inl (Exception msg) \<Rightarrow> ReindexFailed msg),
          st2))"





section \<open>Notions for the properties of the indexer\<close>








section \<open>Example values\<close>

text \<open>Agents with fixed answers, and directors that hold them, for concrete runs.\<close>

definition fixed_response :: "ustr \<Rightarrow> AgentResponse" where
  "fixed_response t = \<lparr>rtext = t, success = True, metadata = None, suggested_actions = None\<rparr>"

definition ex_qa :: agent where
  "ex_qa =
     \<lparr>name = u ''qa'',
      can_handle = (\<lambda>m c. Inr (if 63 \<in> set m then 9 / 10 else 1 / 10)),
      process = (\<lambda>m c. fixed_response (u ''answer''))\<rparr>"

definition ex_note_taker :: agent where
  "ex_note_taker =
     \<lparr>name = u ''note_taker'', can_handle = (\<lambda>m c. Inr (1 / 2)),
      process = (\<lambda>m c. fixed_response (u ''saved''))\<rparr>"

definition ex_research :: agent where
  "ex_research =
     \<lparr>name = u ''research'', can_handle = research_can_handle,
      process = (\<lambda>m c. fixed_response (u ''report''))\<rparr>"

definition ex_failing :: agent where
  "ex_failing =
     \<lparr>name = u ''broken'', can_handle = (\<lambda>m c. Inl (Exception (u ''boom''))),
      process = (\<lambda>m c. fixed_response (u ''never''))\<rparr>"

definition empty_director :: director where
  "empty_director =
     \<lparr>agents = [], agent_map = Map.empty, llm_complete = (\<lambda>req. Inr (u ''note''))\<rparr>"

definition ex_director :: director where
  "ex_director =
     register_agent (register_agent (register_agent empty_director ex_note_taker) ex_qa)
       ex_research"

definition score_director :: director where
  "score_director =
     register_agent (register_agent (register_agent empty_director ex_failing) ex_note_taker)
       ex_qa"

definition research_context :: "context" where
  "research_context = [u ''awaiting_research'' \<mapsto> PBool True]"

text \<open>
  Hits, documents and services that answer every search with the same lists; no document
  of theirs loads and no reranker is configured.
\<close>

definition mk_hit :: "ustr \<Rightarrow> real \<Rightarrow> vhit" where
  "mk_hit i s = \<lparr>note_id = i, score = s, category = Some (u ''Inbox''), tags = [],
                hit_keywords = [], summary = u ''summary'', hit_mtime = 0\<rparr>"

definition mk_doc :: "ustr \<Rightarrow> ustr \<Rightarrow> int \<Rightarrow> doc" where
  "mk_doc i txt t = \<lparr>doc_id = Some i, path = Some i, data = Some txt, ctime = Some t, mtime = Some t\<rparr>"

definition fixed_services :: "vhit list \<Rightarrow> doc list \<Rightarrow> services" where
  "fixed_services hits docs =
     \<lparr>embed_text = (\<lambda>t. Inr []),
      complete = (\<lambda>r. Inr (u ''ok'')),
      search_similar = (\<lambda>e n f t. Inr hits),
      search_documents = (\<lambda>q n. Inr docs),
      get_document = (\<lambda>i. Inl (Exception (u ''not found''))),
      cohere_client = None\<rparr>"

definition wide_hits :: "vhit list" where
  "wide_hits = map (\<lambda>i. mk_hit (118 # str_nat i) (1 / 2)) [0..<30]"

definition wide_docs :: "doc list" where
  "wide_docs = map (\<lambda>i. mk_doc (116 # str_nat i) (u ''text'') 0) [0..<30]"



text \<open>
  An indexer whose store holds the given documents and whose embedding call raises on a
  text that contains \<open>bad\<close>; some documents for it.
\<close>

definition default_metadata :: note_metadata where
  "default_metadata = \<lparr>md_summary = [], md_category = u ''Inbox'', md_tags = [], md_keywords = []\<rparr>"

definition ex_indexer :: "doc list \<Rightarrow> indexer_services" where
  "ex_indexer docs =
     \<lparr>get_all_documents = (\<lambda>n. Inr docs),
      vs_get_stats = Inr 0,
      extract_metadata = (\<lambda>c. Inr default_metadata),
      enrich_frontmatter = (\<lambda>c md. Inr c),
      ix_get_document = (\<lambda>i. Inl (Exception (u ''not found''))),
      ix_embed_text =
        (\<lambda>t. if py_contains (u ''bad'') t then Inl (Exception (u ''embedding failed''))
              else Inr []),
      upsert_note = (\<lambda>i e p. Inr ())\<rparr>"

definition bad_doc :: doc where
  "bad_doc = mk_doc (u ''bad.md'') (u ''bad content here'') 1"

definition good_doc :: doc where
  "good_doc = mk_doc (u ''good.md'') (u ''good content here'') 2"

definition short_doc :: doc where
  "short_doc = mk_doc (u ''short.md'') (u ''todo'') 3"

definition bare_doc :: doc where
  "bare_doc = \<lparr>doc_id = Some (u ''bare.md''), path = Some (u ''bare.md''), data = None,
               ctime = None, mtime = Some 5\<rparr>"







section \<open>Properties of the router\<close>

lemma u_simps: "u [] = []" "u (c # cs) = of_char c # u cs"
  by (simp_all add: u_def)


lemmas ex_agent_defs = ex_qa_def ex_note_taker_def ex_research_def ex_failing_def

lemmas ex_director_defs =
  ex_director_def score_director_def empty_director_def register_agent_def get_agent_def

text \<open>
  C1, as the code has it. A message that contains a question mark, or whose lower-cased text
  starts with an interrogative, is sent to the registered Q&A agent without any completion
  call, when research mode is off and the stripped message does not start with the command
  marker \<open>/\<close>. The trace holds the classification and the dispatch only.
\<close>

theorem route_question_heuristic:
  assumes "63 \<in> set message \<or> list_ex (\<lambda>q. startswith (lower message) q) interrogatives"
      and "\<not> startswith (py_strip message) [47]"
      and "\<not> truthy (ctx_get ctx (u ''awaiting_research''))"
      and "get_agent d (u ''qa'') = Some qa"
  shows "route_message lower d message ctx =
           ([AnalyzeIntent message, Process (name qa)], process qa message ctx)"
  using assms by (simp add: route_message_def analyze_intent_def)

theorem route_question_heuristic_witness:
  "route_message lower_basic ex_director (u ''What is the deployment process?'') Map.empty =
     ([AnalyzeIntent (u ''What is the deployment process?''), Process (name ex_qa)],
      process ex_qa (u ''What is the deployment process?'') Map.empty)"
proof -
  have q: "63 \<in> set (u ''What is the deployment process?'')"
    by (simp add: u_simps)
  have s: "\<not> startswith (py_strip (u ''What is the deployment process?'')) [47]"
    by (simp add: u_simps py_strip_def py_isspace_def startswith_def)
  have r: "\<not> truthy (ctx_get Map.empty (u ''awaiting_research''))"
    by (simp add: ctx_get_def)
  have g: "get_agent ex_director (u ''qa'') = Some ex_qa"
    by (simp add: ex_director_defs ex_agent_defs u_simps)
  show ?thesis
    using route_question_heuristic [of "u ''What is the deployment process?''" lower_basic
        Map.empty ex_director ex_qa] q s r g
    by simp
qed

text \<open>
  C1 as stated fails: \<open>/what?\<close> contains a question mark, research mode is off and the Q&A
  agent is registered, yet the message is classified as a command and goes to the note taker.
\<close>

theorem route_question_counterexample:
  "63 \<in> set (47 # u ''what?'') \<and>
   \<not> truthy (ctx_get Map.empty (u ''awaiting_research'')) \<and>
   get_agent ex_director (u ''qa'') = Some ex_qa \<and>
   route_message lower_basic ex_director (47 # u ''what?'') Map.empty =
     ([AnalyzeIntent (47 # u ''what?''), Process (u ''note_taker'')],
      fixed_response (u ''saved'')) \<and>
   process ex_qa (47 # u ''what?'') Map.empty \<noteq> fixed_response (u ''saved'')"
  by (simp add: route_message_def analyze_intent_def ex_director_defs ex_agent_defs u_simps
      ctx_get_def py_strip_def py_isspace_def startswith_def fixed_response_def)

text \<open>
  C2. With \<open>awaiting_research\<close> set and the research agent registered, \<open>route_message\<close>
  hands the message to that agent whatever it says: the trace is the dispatch alone, with
  no intent classification, no completion call and no \<open>can_handle\<close> call.
\<close>

theorem route_explicit_research:
  assumes "truthy (ctx_get ctx (u ''awaiting_research''))"
      and "get_agent d (u ''research'') = Some r"
  shows "route_message lower d message ctx = ([Process (name r)], process r message ctx)"
  using assms by (simp add: route_message_def)

theorem route_explicit_research_witness:
  "route_message lower_basic ex_director (u ''graph databases?'') research_context =
     ([Process (name ex_research)], process ex_research (u ''graph databases?'') research_context)"
proof -
  have t: "truthy (ctx_get research_context (u ''awaiting_research''))"
    by (simp add: ctx_get_def research_context_def)
  have g: "get_agent ex_director (u ''research'') = Some ex_research"
    by (simp add: ex_director_defs ex_agent_defs u_simps)
  show ?thesis
    using route_explicit_research [OF t g, of lower_basic "u ''graph databases?''"] by simp
qed

text \<open>The head of the sorted scores is one of the scores and no score is larger.\<close>

lemma sort_key_head_max:
  assumes "sort_key (\<lambda>x. - snd x) xs = (a, s) # rest"
  shows "(a, s) \<in> set xs \<and> (\<forall>(b, t) \<in> set xs. (t::real) \<le> s)"
proof -
  have mem: "set (sort_key (\<lambda>x. - snd x) xs) = set xs" by simp
  have srt: "sorted (map (\<lambda>x. - snd x) (sort_key (\<lambda>x. - snd x) xs))" by (rule sorted_sort_key)
  from assms mem have "(a, s) \<in> set xs" by (metis list.set_intros(1))
  moreover have "\<forall>(b, t) \<in> set xs. t \<le> s"
  proof (clarify)
    fix b t assume "(b, t) \<in> set xs"
    with mem assms have "(b, t) = (a, s) \<or> (b, t) \<in> set rest" by (metis set_ConsD)
    moreover from srt assms have "\<forall>y \<in> set rest. - s \<le> - snd y" by simp
    ultimately show "t \<le> s" by auto
  qed
  ultimately show ?thesis by blast
qed

lemma select_best_agent_max:
  assumes "agents d \<noteq> []"
  shows "\<exists>ba \<in> set (agents d).
           (\<forall>a \<in> set (agents d). agent_score a m c \<le> agent_score ba m c) \<and>
           snd (select_best_agent d m c) = (if agent_score ba m c > 3 / 10 then Some ba else None)"
proof -
  let ?sc = "map (\<lambda>a. (a, agent_score a m c)) (agents d)"
  have "length (sort_key (\<lambda>x. - snd x) ?sc) = length (agents d)" by simp
  with assms obtain ba bs rest where hd: "sort_key (\<lambda>x. - snd x) ?sc = (ba, bs) # rest"
    by (cases "sort_key (\<lambda>x. - snd x) ?sc") auto
  from sort_key_head_max [OF hd] have in_sc: "(ba, bs) \<in> set ?sc"
    and mx: "\<forall>(b, t) \<in> set ?sc. t \<le> bs" by blast+
  from in_sc have ba: "ba \<in> set (agents d)" and bs: "bs = agent_score ba m c" by auto
  have "\<forall>a \<in> set (agents d). agent_score a m c \<le> agent_score ba m c"
    using mx bs by auto
  moreover have "snd (select_best_agent d m c) = (if agent_score ba m c > 3 / 10 then Some ba else None)"
    using assms hd bs by (simp add: select_best_agent_def Let_def)
  ultimately show ?thesis using ba by blast
qed

lemma agent_score_above:
  "agent_score a m c > 3 / 10 \<Longrightarrow> \<exists>s. can_handle a m c = Inr s \<and> s = agent_score a m c"
  by (cases "can_handle a m c") (simp_all add: agent_score_def)

text \<open>
  C7. \<open>select_best_agent\<close> returns only a registered agent whose own score is above 0.3;
  without agents it returns nothing; every agent is asked, an agent whose \<open>can_handle\<close>
  raises is never returned, and when some agent scores above 0.3 an agent with at least
  that score is returned although others raised.
\<close>

theorem select_best_agent_floor:
  "(snd (select_best_agent d m c) = Some a \<longrightarrow>
      a \<in> set (agents d) \<and> (\<exists>s. can_handle a m c = Inr s \<and> s > 3 / 10)) \<and>
   (agents d = [] \<longrightarrow> select_best_agent d m c = ([], None)) \<and>
   (b \<in> set (agents d) \<and> can_handle b m c = Inr t \<and> t > 3 / 10 \<longrightarrow>
      (\<exists>a' s'. snd (select_best_agent d m c) = Some a' \<and> can_handle a' m c = Inr s' \<and> t \<le> s')) \<and>
   fst (select_best_agent d m c) = map (\<lambda>a. CanHandle (name a)) (agents d)"
proof (intro conjI impI)
  assume r: "snd (select_best_agent d m c) = Some a"
  then have ne: "agents d \<noteq> []" by (auto simp: select_best_agent_def)
  from select_best_agent_max [OF ne, of m c] r
  have "a \<in> set (agents d)" and "agent_score a m c > 3 / 10"
    by (auto split: if_splits)
  then show "a \<in> set (agents d)" and "\<exists>s. can_handle a m c = Inr s \<and> s > 3 / 10"
    using agent_score_above by fastforce+
next
  assume "agents d = []"
  then show "select_best_agent d m c = ([], None)" by (simp add: select_best_agent_def)
next
  assume h: "b \<in> set (agents d) \<and> can_handle b m c = Inr t \<and> t > 3 / 10"
  then have ne: "agents d \<noteq> []" by auto
  from h have sb: "agent_score b m c = t" by (simp add: agent_score_def)
  from select_best_agent_max [OF ne, of m c] obtain ba where
    ba: "ba \<in> set (agents d)" and mx: "\<forall>a \<in> set (agents d). agent_score a m c \<le> agent_score ba m c"
    and res: "snd (select_best_agent d m c) = (if agent_score ba m c > 3 / 10 then Some ba else None)"
    by blast
  from mx h sb have le: "t \<le> agent_score ba m c" by auto
  with h have gt: "agent_score ba m c > 3 / 10" by simp
  from agent_score_above [OF gt] res gt le
  show "\<exists>a' s'. snd (select_best_agent d m c) = Some a' \<and> can_handle a' m c = Inr s' \<and> t \<le> s'"
    by auto
next
  show "fst (select_best_agent d m c) = map (\<lambda>a. CanHandle (name a)) (agents d)"
    by (simp add: select_best_agent_def Let_def)
qed

theorem select_best_agent_floor_witness:
  "agents score_director = [ex_failing, ex_note_taker, ex_qa] \<and>
   can_handle ex_failing (u ''why?'') Map.empty = Inl (Exception (u ''boom'')) \<and>
   can_handle ex_note_taker (u ''why?'') Map.empty = Inr (1 / 2) \<and>
   (\<exists>a' s'. snd (select_best_agent score_director (u ''why?'') Map.empty) = Some a' \<and>
      can_handle a' (u ''why?'') Map.empty = Inr s' \<and> 1 / 2 \<le> s') \<and>
   select_best_agent empty_director (u ''why?'') Map.empty = ([], None)"
proof -
  have ag: "agents score_director = [ex_failing, ex_note_taker, ex_qa]"
    by (simp add: ex_director_defs)
  have f: "can_handle ex_failing (u ''why?'') Map.empty = Inl (Exception (u ''boom''))"
    by (simp add: ex_failing_def)
  have n: "can_handle ex_note_taker (u ''why?'') Map.empty = Inr (1 / 2)"
    by (simp add: ex_note_taker_def)
  have e: "agents empty_director = []" by (simp add: empty_director_def)
  show ?thesis
    using select_best_agent_floor
      [of score_director "u ''why?''" Map.empty ex_qa ex_note_taker "1 / 2"]
      select_best_agent_floor
      [of empty_director "u ''why?''" Map.empty ex_qa ex_note_taker "1 / 2"]
      ag f n e
    by simp
qed

section \<open>Properties of the retrieval pipeline\<close>

lemma stage2_length: "length (snd (stage2_hybrid_search sv query flt limit)) \<le> limit"
  by (simp add: stage2_hybrid_search_def split: prod.splits)

lemma vector_search_events:
  "set (fst (vector_search sv q flt)) \<subseteq> {EmbedText q, SearchSimilar 30}"
  by (auto simp: vector_search_def split: sum.splits)

lemma fulltext_search_events:
  "fst (fulltext_search sv q cs) = [SearchDocuments q 30]"
  by (auto simp: fulltext_search_def Let_def split: sum.splits)

lemma stage2_events:
  "fst (stage2_hybrid_search sv q flt limit) =
     fst (vector_search sv q flt) @ [SearchDocuments q 30]"
  by (simp add: stage2_hybrid_search_def case_prod_beta fulltext_search_events)

lemma stage2_no_complete: "Complete req \<notin> set (fst (stage2_hybrid_search sv q flt limit))"
  using vector_search_events [of sv q flt] by (auto simp: stage2_events)

text \<open>
  C6. When stage 2 returns no candidate, the Q&A agent and the research agent both answer
  with \<open>success = True\<close>, their nothing-found text and \<open>found_count = 0\<close>; the calls made
  are those of stage 2 alone, so no completion call and no synthesis pass takes place.
\<close>

theorem no_candidates_nothing_found:
  "(snd (stage2_hybrid_search sv message (stage1_metadata_filter (extract_keywords lower message)) 50) = [] \<longrightarrow>
      qa_process lower sv message ctx =
        (fst (stage2_hybrid_search sv message (stage1_metadata_filter (extract_keywords lower message)) 50),
         \<lparr>rtext = qa_nothing_found_text, success = True,
          metadata = Some [(u ''found_count'', MInt 0)], suggested_actions = None\<rparr>) \<and>
      (\<forall>req. Complete req \<notin> set (fst (qa_process lower sv message ctx)))) \<and>
   (snd (stage2_hybrid_search sv message (stage1_metadata_filter (extract_keywords lower message)) 100) = [] \<longrightarrow>
      research_process lower sv message ctx =
        (fst (stage2_hybrid_search sv message (stage1_metadata_filter (extract_keywords lower message)) 100),
         \<lparr>rtext = research_nothing_found_text, success = True,
          metadata = Some [(u ''found_count'', MInt 0)], suggested_actions = None\<rparr>) \<and>
      (\<forall>req. Complete req \<notin> set (fst (research_process lower sv message ctx))))"
  by (simp add: qa_process_def research_process_def Let_def case_prod_beta stage2_no_complete)

theorem no_candidates_nothing_found_witness:
  "snd (stage2_hybrid_search (fixed_services [] []) (u ''graph databases'')
          (stage1_metadata_filter (extract_keywords lower_basic (u ''graph databases''))) 100) = [] \<and>
   research_process lower_basic (fixed_services [] []) (u ''graph databases'') research_context =
     ([EmbedText (u ''graph databases''), SearchSimilar 30, SearchDocuments (u ''graph databases'') 30],
      \<lparr>rtext = research_nothing_found_text, success = True,
       metadata = Some [(u ''found_count'', MInt 0)], suggested_actions = None\<rparr>) \<and>
   qa_process lower_basic (fixed_services [] []) (u ''What is the deployment process?'') Map.empty =
     ([EmbedText (u ''What is the deployment process?''), SearchSimilar 30,
       SearchDocuments (u ''What is the deployment process?'') 30],
      \<lparr>rtext = qa_nothing_found_text, success = True,
       metadata = Some [(u ''found_count'', MInt 0)], suggested_actions = None\<rparr>)"
proof -
  have e: "stage2_hybrid_search (fixed_services [] []) q flt limit =
             ([EmbedText q, SearchSimilar 30, SearchDocuments q 30], [])" for q flt limit
    by (simp add: stage2_hybrid_search_def vector_search_def fulltext_search_def
        fixed_services_def)
  show ?thesis
    using no_candidates_nothing_found
      [of "fixed_services [] []" "u ''graph databases''" lower_basic research_context]
      no_candidates_nothing_found
      [of "fixed_services [] []" "u ''What is the deployment process?''" lower_basic Map.empty]
    by (simp add: e)
qed








lemma doc_note_id_mk_doc: "doc_note_id (mk_doc (c # i) txt t) = c # i"
  by (simp add: doc_note_id_def mk_doc_def)

lemma wide_ids_apart:
  "d \<in> set wide_docs \<Longrightarrow> h \<in> set wide_hits \<Longrightarrow> doc_note_id d \<noteq> note_id h"
  by (auto simp: wide_docs_def wide_hits_def doc_note_id_mk_doc mk_hit_def)

lemma wide_stage2:
  "snd (stage2_hybrid_search (fixed_services wide_hits wide_docs) q flt 100) =
     map VectorCand wide_hits @ map fulltext_candidate wide_docs"
proof -
  have "filter (\<lambda>d. doc_note_id d \<notin> cand_note_id ` VectorCand ` set wide_hits) wide_docs
          = wide_docs"
    by (rule filter_True) (auto dest: wide_ids_apart)
  moreover have "length wide_hits = 30" "length wide_docs = 30"
    by (simp_all add: wide_hits_def wide_docs_def)
  ultimately show ?thesis
    by (simp add: stage2_hybrid_search_def vector_search_def fulltext_search_def
        fixed_services_def Let_def)
qed

lemma load_research_docs_none:
  "\<forall>i. get_document sv i = Inl (Exception (u ''not found'')) \<Longrightarrow>
     snd (load_research_docs sv cs idxs) = []"
  by (induction idxs) (simp_all add: case_prod_beta Let_def)

text \<open>
  C3 as stated fails on the research path, which calls stage 2 with the limit 100: with 30
  vector hits and 30 other full-text documents the stage returns 60 candidates, and the
  response reports \<open>found_count = 60\<close>.
\<close>

theorem stage2_limit_counterexample:
  "length (snd (stage2_hybrid_search (fixed_services wide_hits wide_docs)
            (u ''graph databases'') (stage1_metadata_filter (extract_keywords lower_basic (u ''graph databases''))) 100)) = 60 \<and>
   metadata (snd (research_process lower_basic (fixed_services wide_hits wide_docs)
            (u ''graph databases'') research_context)) = Some [(u ''found_count'', MInt 60)]"
proof -
  let ?sv = "fixed_services wide_hits wide_docs"
  have len: "length (map VectorCand wide_hits @ map fulltext_candidate wide_docs) = 60"
    by (simp add: wide_hits_def wide_docs_def)
  have g: "\<forall>i. get_document ?sv i = Inl (Exception (u ''not found''))"
    by (simp add: fixed_services_def)
  have l: "snd (rerank_and_load ?sv m cs k) = []" for m cs k
    using load_research_docs_none [OF g] by (simp add: rerank_and_load_def case_prod_beta)
  have ne: "map VectorCand wide_hits @ map fulltext_candidate wide_docs \<noteq> []"
    using len by auto
  show ?thesis
    using len ne
    by (simp add: research_process_def Let_def case_prod_beta wide_stage2 l del: map_append)
qed

text \<open>
  C3, as the code has it. Stage 2 never returns more candidates than the limit it is called
  with; the Q&A agent calls it with 50 and the research agent with 100, so a
  \<open>found_count\<close> reported by the first is at most 50 and by the second at most 100.
\<close>

theorem stage2_within_limit:
  "length (snd (stage2_hybrid_search sv query flt limit)) \<le> limit \<and>
   (\<forall>m n. metadata (snd (qa_process lower sv message ctx)) = Some m \<and>
      map_of m (u ''found_count'') = Some (MInt n) \<longrightarrow> n \<le> 50) \<and>
   (\<forall>m n. metadata (snd (research_process lower sv message ctx)) = Some m \<and>
      map_of m (u ''found_count'') = Some (MInt n) \<longrightarrow> n \<le> 100)"
proof (intro conjI allI impI)
  show "length (snd (stage2_hybrid_search sv query flt limit)) \<le> limit"
    by (rule stage2_length)
next
  fix m n
  assume a: "metadata (snd (qa_process lower sv message ctx)) = Some m \<and>
      map_of m (u ''found_count'') = Some (MInt n)"
  let ?cs = "snd (stage2_hybrid_search sv message (stage1_metadata_filter (extract_keywords lower message)) 50)"
  have l: "length ?cs \<le> 50" by (rule stage2_length)
  show "n \<le> 50"
  proof (cases "?cs = []")
    case True
    with a show ?thesis by (auto simp: qa_process_def Let_def case_prod_beta)
  next
    case False
    with a l show ?thesis
      by (auto simp: qa_process_def stage3_rerank_and_analyze_def Let_def case_prod_beta
          split: sum.splits error.splits if_splits prod.splits)
  qed
next
  fix m n
  assume a: "metadata (snd (research_process lower sv message ctx)) = Some m \<and>
      map_of m (u ''found_count'') = Some (MInt n)"
  let ?cs = "snd (stage2_hybrid_search sv message (stage1_metadata_filter (extract_keywords lower message)) 100)"
  have l: "length ?cs \<le> 100" by (rule stage2_length)
  have nf: "u ''found_count'' \<noteq> u ''documents_analyzed''" "u ''found_count'' \<noteq> u ''sources''"
    by (simp_all add: u_simps)
  show "n \<le> 100"
    using a l nf
    by (auto simp: research_process_def multi_pass_analysis_def Let_def case_prod_beta
        split: if_splits)
qed

lemma index_all_in_range:
  "\<forall>i \<in> set idxs. i < length xs \<Longrightarrow> index_all xs idxs = Inr (map ((!) xs) idxs)"
  by (induction idxs) simp_all

lemma map_nth_upt_take: "n \<le> length xs \<Longrightarrow> map ((!) xs) [0..<n] = take n xs"
  by (simp add: list_eq_iff_nth_eq)

lemma take_upt_min: "take k [0..<n] = [0..<min k n]"
  by (simp add: min_def)

lemma qa_rerank_fallback:
  assumes "cohere_client sv = None \<or>
           (\<exists>rerank. cohere_client sv = Some rerank \<and> (\<forall>req. isl (rerank req)))"
  shows "snd (qa_rerank sv q cs docs k) = [0..<min k (length cs)]"
  using assms
  by (auto simp: qa_rerank_def Let_def split: option.splits sum.splits) (metis sum.disc(2))+



lemma top_candidates_fallback:
  assumes "cohere_client sv = None \<or>
           (\<exists>rerank. cohere_client sv = Some rerank \<and> (\<forall>req. isl (rerank req)))"
  shows "top_candidates sv query candidates top_k =
           (fst (docs_for_rerank sv candidates) @
            fst (qa_rerank sv query candidates (snd (docs_for_rerank sv candidates)) top_k),
            Inr (take top_k candidates))"
proof -
  let ?n = "min top_k (length candidates)"
  have rng: "\<forall>i \<in> set [0..<?n]. i < length candidates" by simp
  have sel: "map ((!) candidates) [0..<?n] = take top_k candidates"
    using map_nth_upt_take [of ?n candidates] by (simp add: min_def)
  show ?thesis
    using qa_rerank_fallback [OF assms] index_all_in_range [OF rng] sel
    by (simp add: top_candidates_def case_prod_beta take_upt_min)
qed





lemma wide_stage2_any:
  "snd (stage2_hybrid_search (fixed_services wide_hits wide_docs) q flt limit) =
     take limit (map VectorCand wide_hits @ map fulltext_candidate wide_docs)"
proof -
  have "filter (\<lambda>d. doc_note_id d \<notin> cand_note_id ` VectorCand ` set wide_hits) wide_docs
          = wide_docs"
    by (rule filter_True) (auto dest: wide_ids_apart)
  then show ?thesis
    by (simp add: stage2_hybrid_search_def vector_search_def fulltext_search_def
        fixed_services_def Let_def del: take_append)
qed

lemma load_context_docs_none:
  "\<forall>i. isl (get_document sv i) \<Longrightarrow> snd (load_context_docs sv cs) = []"
proof (induction cs)
  case Nil
  then show ?case by simp
next
  case (Cons c cs)
  from Cons.prems obtain e where "get_document sv (cand_note_id c) = Inl e"
    by (metis sum.collapse(1))
  with Cons show ?case by (simp add: case_prod_beta)
qed

theorem stage2_within_limit_witness:
  "length (map VectorCand wide_hits @ map fulltext_candidate wide_docs) = 60 \<and>
   length (snd (stage2_hybrid_search (fixed_services wide_hits wide_docs) (u ''why?'')
                  (stage1_metadata_filter (extract_keywords lower_basic (u ''why?''))) 50)) = 50 \<and>
   metadata (snd (qa_process lower_basic (fixed_services wide_hits wide_docs) (u ''why?'')
                    Map.empty)) = Some [(u ''found_count'', MInt 50)] \<and>
   map_of [(u ''found_count'', MInt 50)] (u ''found_count'') = Some (MInt 50) \<and>
   (50::int) \<le> 50 \<and>
   length (snd (stage2_hybrid_search (fixed_services wide_hits wide_docs) (u ''why?'') [] 50))
     \<le> 50"
proof -
  let ?sv = "fixed_services wide_hits wide_docs"
  let ?all = "map VectorCand wide_hits @ map fulltext_candidate wide_docs"
  have len: "length ?all = 60" by (simp add: wide_hits_def wide_docs_def)
  then have l50: "length (take 50 ?all) = 50" by (simp del: map_append take_append)
  then have ne: "take 50 ?all \<noteq> []" by (metis length_0_conv zero_neq_numeral)
  have c: "cohere_client ?sv = None \<or>
           (\<exists>rerank. cohere_client ?sv = Some rerank \<and> (\<forall>req. isl (rerank req)))"
    by (simp add: fixed_services_def)
  have g: "\<forall>i. isl (get_document ?sv i)" by (simp add: fixed_services_def)
  have m: "metadata (snd (qa_process lower_basic ?sv (u ''why?'') Map.empty)) =
             Some [(u ''found_count'', MInt 50)]"
    using ne l50
    by (simp add: qa_process_def Let_def case_prod_beta wide_stage2_any
        stage3_rerank_and_analyze_def top_candidates_fallback [OF c]
        load_context_docs_none [OF g] del: map_append take_append length_take)
  have s: "length (snd (stage2_hybrid_search ?sv (u ''why?'')
                  (stage1_metadata_filter (extract_keywords lower_basic (u ''why?''))) 50)) = 50"
    using l50 by (simp add: wide_stage2_any del: map_append take_append length_take)
  show ?thesis
    using stage2_within_limit
      [of ?sv "u ''why?''" "[]" 50 lower_basic "u ''why?''" Map.empty] m s len
    by (simp del: map_append take_append length_take)
qed

section \<open>Properties of the indexer\<close>



lemmas ex_doc_defs = bad_doc_def good_doc_def short_doc_def bare_doc_def mk_doc_def







lemma index_each_skipped:
  "\<forall>d \<in> set ds. doc_data d = [] \<or> length (py_strip (doc_data d)) < 10 \<Longrightarrow>
     index_each sv st ds = ([], Inr (), st)"
  by (induction ds) (auto simp: index_note_def Let_def)

text \<open>
  C10. A note whose content is empty or shorter than 10 characters once stripped is
  returned from at once: no call is made and no counter changes. When all pending notes are
  such notes the reindex makes the discovery calls only and still returns their number;
  whenever the reindex succeeds the number it returns is the number of pending notes.
\<close>

theorem short_note_skipped:
  "(doc_data d = [] \<or> length (py_strip (doc_data d)) < 10 \<longrightarrow>
      index_note sv st d = ([], Inr (), st)) \<and>
   ((\<forall>d \<in> set (fst (snd (find_pending_notes sv st))).
        doc_data d = [] \<or> length (py_strip (doc_data d)) < 10) \<longrightarrow>
      reindex_all sv st =
        (fst (find_pending_notes sv st),
         ReindexOk (length (fst (snd (find_pending_notes sv st)))),
         snd (snd (find_pending_notes sv st)))) \<and>
   (fst (snd (reindex_all sv st)) = ReindexOk n \<longrightarrow>
      n = length (fst (snd (find_pending_notes sv st))))"
proof (intro conjI impI)
  assume "doc_data d = [] \<or> length (py_strip (doc_data d)) < 10"
  then show "index_note sv st d = ([], Inr (), st)"
    by (auto simp: index_note_def Let_def)
next
  assume "\<forall>d \<in> set (fst (snd (find_pending_notes sv st))).
        doc_data d = [] \<or> length (py_strip (doc_data d)) < 10"
  from index_each_skipped [OF this]
  show "reindex_all sv st =
        (fst (find_pending_notes sv st),
         ReindexOk (length (fst (snd (find_pending_notes sv st)))),
         snd (snd (find_pending_notes sv st)))"
    by (simp add: reindex_all_def case_prod_beta)
next
  assume "fst (snd (reindex_all sv st)) = ReindexOk n"
  then show "n = length (fst (snd (find_pending_notes sv st)))"
    by (auto simp: reindex_all_def case_prod_beta split: sum.splits error.splits)
qed







































lemma pending_bare_short:
  "find_pending_notes (ex_indexer [bare_doc, short_doc]) st =
     ([GetAllDocuments 500, GetStats], [bare_doc, short_doc],
      st\<lparr>total_notes := 2, indexed_notes := 0, pending_notes := 2\<rparr>)"
  by (simp add: find_pending_notes_def ex_indexer_def ex_doc_defs doc_data_def doc_ctime_def
      u_simps startswith_def Let_def)

theorem short_note_skipped_witness:
  "doc_data bare_doc = [] \<and> length (py_strip (doc_data short_doc)) < 10 \<and>
   index_note (ex_indexer [bare_doc, short_doc]) initial_stats short_doc =
     ([], Inr (), initial_stats) \<and>
   fst (reindex_all (ex_indexer [bare_doc, short_doc]) initial_stats) =
     [GetAllDocuments 500, GetStats] \<and>
   fst (snd (reindex_all (ex_indexer [bare_doc, short_doc]) initial_stats)) = ReindexOk 2"
proof -
  let ?sv = "ex_indexer [bare_doc, short_doc]"
  have b: "doc_data bare_doc = []" by (simp add: bare_doc_def doc_data_def)
  have s: "length (py_strip (doc_data short_doc)) < 10"
    by (simp add: ex_doc_defs doc_data_def py_strip_def py_isspace_def u_simps)
  have a: "\<forall>d \<in> set (fst (snd (find_pending_notes ?sv initial_stats))).
             doc_data d = [] \<or> length (py_strip (doc_data d)) < 10"
    using b s by (simp add: pending_bare_short)
  show ?thesis
    using short_note_skipped [of short_doc ?sv initial_stats 2] a b s
    by (simp add: pending_bare_short)
qed

end
